theory Spec2Isabelle
  imports Main
begin

section \<open>The ExtJS Direct JSON codec of \<^verbatim>\<open>json/server.go\<close>\<close>

text \<open>
  The Go package implements one \<^verbatim>\<open>rpc.CodecRequest\<close>: a per-call session with the three
  methods \<^verbatim>\<open>Method\<close>, \<^verbatim>\<open>ReadRequest\<close> and \<^verbatim>\<open>WriteResponse\<close>. Each method has a pointer
  receiver, so each is embedded in state-passing style: it takes the session and returns
  the session it leaves behind, next to its Go results. A nil pointer or a nil \<^verbatim>\<open>error\<close> is
  \<open>None\<close>.
\<close>

subsection \<open>JSON values, raw messages and errors\<close>

text \<open>
  A \<^verbatim>\<open>json.RawMessage\<close> is a byte slice holding one JSON text whose decoding is delayed.
  The decoder only ever stores a syntactically valid text in it, so a raw message is modelled by
  the JSON value its text denotes. Numbers are kept to integer literals.
\<close>

datatype json =
    JNull
  | JBool bool
  | JNumber int
  | JString string
  | JArray "json list"
  | JObject "(string \<times> json) list"

type_synonym RawMessage = json

text \<open>\<^verbatim>\<open>var null = json.RawMessage([]byte("null"))\<close>\<close>

definition null :: RawMessage where
  "null = JNull"

text \<open>
  Go's \<^verbatim>\<open>error\<close> values: the ones \<^verbatim>\<open>errors.New\<close> builds (they also stand for any error known by
  its message only, such as a handler's) and the \<^verbatim>\<open>*json.UnmarshalTypeError\<close> of the decoder,
  with its fields \<^verbatim>\<open>Value\<close>, \<^verbatim>\<open>Type\<close>, \<^verbatim>\<open>Struct\<close> and \<^verbatim>\<open>Field\<close> in this order (the last two are
  empty outside a struct). \<open>Error\<close> is the method \<^verbatim>\<open>Error() string\<close>.
\<close>

datatype error =
    errorString string
  | UnmarshalTypeError string string string string

definition errors_New :: "string \<Rightarrow> error" where
  "errors_New text = errorString text"

fun Error :: "error \<Rightarrow> string" where
  "Error (errorString s) = s"
| "Error (UnmarshalTypeError v ty st fd) =
     (if st \<noteq> [] \<or> fd \<noteq> []
      then ''json: cannot unmarshal '' @ v @ '' into Go struct field '' @ st @ ''.'' @ fd
             @ '' of type '' @ ty
      else ''json: cannot unmarshal '' @ v @ '' into Go value of type '' @ ty)"

subsection \<open>Request and response\<close>

text \<open>
  The three structs. Records of one theory share their field names' name space, so every
  field carries the tag of its struct: \<open>req_\<close> for \<^verbatim>\<open>serverRequest\<close>, \<open>res_\<close> for
  \<^verbatim>\<open>serverResponse\<close>, \<open>eres_\<close> for \<^verbatim>\<open>serverErrorResponse\<close>. The fields of type
  \<^verbatim>\<open>*json.RawMessage\<close> are options. \<^verbatim>\<open>Result\<close> is an \<^verbatim>\<open>interface{}\<close> holding whatever the handler
  returned (type \<open>'r\<close>); \<^verbatim>\<open>Error\<close> is an \<^verbatim>\<open>interface{}\<close> that always holds a string here.
\<close>

record serverRequest =
  req_Method :: string
  req_Params :: "RawMessage option"
  req_Id :: "RawMessage option"
  req_Type :: string
  req_Action :: string

record 'r serverResponse =
  res_Result :: 'r
  res_Id :: "RawMessage option"
  res_Type :: string
  res_Action :: string
  res_Method :: string

record serverErrorResponse =
  eres_Error :: string
  eres_Id :: "RawMessage option"
  eres_Type :: string
  eres_Action :: string
  eres_Method :: string

subsection \<open>CodecRequest\<close>

record CodecRequest =
  request :: serverRequest
  err :: "error option"

text \<open>
  \<^verbatim>\<open>newCodecRequest\<close>: the body is decoded into a fresh \<^verbatim>\<open>serverRequest\<close> and the decoder's error is
  stored, never returned. \<open>Decode\<close> stands for \<^verbatim>\<open>json.NewDecoder(r.Body).Decode(req)\<close> on the
  zero-valued struct: it yields the error and the struct as the decoder left it. (Closing the
  body has no effect on the session.)
\<close>

definition newCodecRequest :: "('b \<Rightarrow> error option \<times> serverRequest) \<Rightarrow> 'b \<Rightarrow> CodecRequest" where
  "newCodecRequest Decode body =
     (case Decode body of (e, req) \<Rightarrow> \<lparr>request = req, err = e\<rparr>)"

text \<open>
  \<^verbatim>\<open>func (c *CodecRequest) Method() (string, error)\<close>. The result is the name, the error and
  the session after the call.
\<close>

definition Method :: "CodecRequest \<Rightarrow> string \<times> error option \<times> CodecRequest" where
  "Method c =
     (if err c = None
      then (req_Action (request c) @ ''.'' @ req_Method (request c), None, c)
      else ('''', err c, c))"

subsection \<open>Unmarshalling the arguments\<close>

text \<open>
  \<^verbatim>\<open>ReadRequest\<close> calls \<^verbatim>\<open>json.Unmarshal(*c.request.Params, &params)\<close> with
  \<^verbatim>\<open>params := [1]interface{}{args}\<close>, where \<^verbatim>\<open>args\<close> points to storage owned by the caller.
  \<open>json_Unmarshal\<close> is the standard library's function at this destination type, after the
  documentation of \<^verbatim>\<open>encoding/json\<close>:
  \<^item> the JSON null unmarshals into an interface, map, pointer or slice by setting it to nil, and
    otherwise has no effect: the destination is an array, so \<^verbatim>\<open>null\<close> changes nothing;
  \<^item> a JSON array unmarshals element by element; elements beyond the Go array's length are
    discarded, and the Go elements beyond the JSON array's length are set to their zero value
    (for \<^verbatim>\<open>[]\<close> the slot becomes a nil interface and the storage behind \<^verbatim>\<open>args\<close> is not touched);
  \<^item> any other JSON value does not fit an array: an \<^verbatim>\<open>UnmarshalTypeError\<close>, nothing stored.
  The argument \<open>args\<close> is the content of the caller's storage and the result holds its content
  afterwards. How one JSON value is stored through the pointer in slot 0 depends on the Go type
  of that storage, which the dispatcher chooses: it is the parameter \<open>dec\<close>.
\<close>

fun json_Unmarshal ::
  "(json \<Rightarrow> 'a \<Rightarrow> error option \<times> 'a) \<Rightarrow> RawMessage \<Rightarrow> 'a \<Rightarrow> error option \<times> 'a" where
  "json_Unmarshal dec JNull args = (None, args)"
| "json_Unmarshal dec (JArray []) args = (None, args)"
| "json_Unmarshal dec (JArray (v # vs)) args = dec v args"
| "json_Unmarshal dec (JBool b) args =
     (Some (UnmarshalTypeError ''bool'' ''[1]interface {}'' [] []), args)"
| "json_Unmarshal dec (JNumber n) args =
     (Some (UnmarshalTypeError ''number'' ''[1]interface {}'' [] []), args)"
| "json_Unmarshal dec (JString s) args =
     (Some (UnmarshalTypeError ''string'' ''[1]interface {}'' [] []), args)"
| "json_Unmarshal dec (JObject kvs) args =
     (Some (UnmarshalTypeError ''object'' ''[1]interface {}'' [] []), args)"

text \<open>
  One instance of \<open>dec\<close>, for a handler whose argument type is \<^verbatim>\<open>string\<close> (\<^verbatim>\<open>args\<close> is a
  \<^verbatim>\<open>*string\<close>): a JSON string is stored, null leaves the string as it is, anything else is a
  type error.
\<close>

fun decode_string :: "json \<Rightarrow> string \<Rightarrow> error option \<times> string" where
  "decode_string (JString s) args = (None, s)"
| "decode_string JNull args = (None, args)"
| "decode_string (JBool b) args = (Some (UnmarshalTypeError ''bool'' ''string'' [] []), args)"
| "decode_string (JNumber n) args = (Some (UnmarshalTypeError ''number'' ''string'' [] []), args)"
| "decode_string (JArray vs) args = (Some (UnmarshalTypeError ''array'' ''string'' [] []), args)"
| "decode_string (JObject kvs) args = (Some (UnmarshalTypeError ''object'' ''string'' [] []), args)"

text \<open>
  \<^verbatim>\<open>func (c *CodecRequest) ReadRequest(args interface{}) error\<close>. The result is the returned
  error, the session, and the content of the caller's storage. In the branches of the inner
  \<^verbatim>\<open>if\<close>, \<open>p\<close> is what \<^verbatim>\<open>*c.request.Params\<close> denotes at the call of \<^verbatim>\<open>json.Unmarshal\<close>.
\<close>

definition ReadRequest ::
  "(json \<Rightarrow> 'a \<Rightarrow> error option \<times> 'a) \<Rightarrow> CodecRequest \<Rightarrow> 'a \<Rightarrow> error option \<times> CodecRequest \<times> 'a" where
  "ReadRequest dec c args =
     (if err c = None
      then
        (let (c1, p) =
               (case req_Params (request c) of
                  None \<Rightarrow> (c\<lparr>request := (request c)\<lparr>req_Params := Some null\<rparr>\<rparr>, null)
                | Some p \<Rightarrow>
                    (c\<lparr>err := Some (errors_New
                        ''rpc: method request ill-formed: missing params field'')\<rparr>, p));
             (e, args') = json_Unmarshal dec p args;
             c2 = c1\<lparr>err := e\<rparr>
         in (err c2, c2, args'))
      else (err c, c, args))"

subsection \<open>Writing the response\<close>

text \<open>
  What \<^verbatim>\<open>encoder.Encode\<close> is handed: a \<^verbatim>\<open>*serverResponse\<close> or a \<^verbatim>\<open>*serverErrorResponse\<close>.
\<close>

datatype 'r encoded =
    Response "'r serverResponse"
  | ErrorResponse serverErrorResponse

text \<open>
  The \<^verbatim>\<open>http.ResponseWriter\<close>: its header map (\<^verbatim>\<open>map[string][]string\<close>) and the body written so
  far, in whatever form the transport keeps it. \<open>Header_Set\<close> is \<^verbatim>\<open>w.Header().Set(key, value)\<close>
  for a key in canonical form, as \<^verbatim>\<open>Content-Type\<close> is.
\<close>

record 'b ResponseWriter =
  Header :: "string \<rightharpoonup> string list"
  Body :: 'b

definition Header_Set :: "string \<Rightarrow> string \<Rightarrow> 'b ResponseWriter \<Rightarrow> 'b ResponseWriter" where
  "Header_Set key v w = w\<lparr>Header := (Header w)(key \<mapsto> [v])\<rparr>"

text \<open>
  \<^verbatim>\<open>func (c *CodecRequest) WriteResponse(w http.ResponseWriter, reply interface{}, methodErr error) error\<close>.
  \<open>Encode v w\<close> stands for \<^verbatim>\<open>json.NewEncoder(w).Encode(v)\<close>: the standard library marshals the
  value and writes the bytes to \<open>w\<close>; either step can fail, and the error comes back with the
  writer as the call left it. The source drops that error at both calls.
\<close>

definition WriteResponse ::
  "('r encoded \<Rightarrow> 'b ResponseWriter \<Rightarrow> error option \<times> 'b ResponseWriter) \<Rightarrow>
   CodecRequest \<Rightarrow> 'b ResponseWriter \<Rightarrow> 'r \<Rightarrow> error option \<Rightarrow>
   error option \<times> CodecRequest \<times> 'b ResponseWriter" where
  "WriteResponse Encode c w reply methodErr =
     (if err c \<noteq> None then (err c, c, w)
      else
        (case methodErr of
           Some me \<Rightarrow>
             (let res = \<lparr>eres_Error = Error me,
                         eres_Id = req_Id (request c),
                         eres_Type = ''exception'',
                         eres_Action = req_Action (request c),
                         eres_Method = req_Method (request c)\<rparr>;
                  w1 = Header_Set ''Content-Type'' ''application/json; charset=utf-8'' w;
                  (_, w2) = Encode (ErrorResponse res) w1
              in (None, c, w2))
         | None \<Rightarrow>
             (let res = \<lparr>res_Result = reply,
                         res_Id = req_Id (request c),
                         res_Type = req_Type (request c),
                         res_Action = req_Action (request c),
                         res_Method = req_Method (request c)\<rparr>
              in if req_Id (request c) = None
                 then (let res' = res\<lparr>res_Id := Some null\<rparr> in (None, c, w))
                 else
                   (let w1 = Header_Set ''Content-Type'' ''application/json; charset=utf-8'' w;
                        (_, w2) = Encode (Response res) w1
                    in (None, c, w2)))))"

text \<open>
  Two encoders to run the codec with: one whose every call succeeds and appends the value to
  the body (a recording writer), and one whose every call fails with a given error and
  writes nothing.
\<close>

definition Encode_record ::
  "'r encoded \<Rightarrow> 'r encoded list ResponseWriter \<Rightarrow> error option \<times> 'r encoded list ResponseWriter" where
  "Encode_record v w = (None, w\<lparr>Body := Body w @ [v]\<rparr>)"

definition Encode_fail ::
  "error \<Rightarrow> 'r encoded \<Rightarrow> 'b ResponseWriter \<Rightarrow> error option \<times> 'b ResponseWriter" where
  "Encode_fail e v w = (Some e, w)"

text \<open>
  The standard library's encoder on a writer that accepts every write, at the two structs of
  this package. \<^verbatim>\<open>Encode\<close> marshals the value first and returns the error of that step without
  writing anything; otherwise it writes one JSON document, an object with the fields in the
  order of the struct and under the names of their \<^verbatim>\<open>json\<close> tags. The body is the list of the
  documents written, each kept as the JSON value it denotes (the encoder writes a raw message
  compacted and with HTML characters escaped: another text of the same value). A nil
  \<^verbatim>\<open>*json.RawMessage\<close> is written as \<^verbatim>\<open>null\<close>. How the handler's reply marshals depends on its Go
  type: it is the parameter \<open>marshal\<close>. The strings and the raw messages of the two structs
  always marshal.
\<close>

definition Encode_json ::
  "('r \<Rightarrow> error + json) \<Rightarrow> 'r encoded \<Rightarrow> json list ResponseWriter \<Rightarrow>
   error option \<times> json list ResponseWriter" where
  "Encode_json marshal v w =
     (case v of
        Response res \<Rightarrow>
          (case marshal (res_Result res) of
             Inl e \<Rightarrow> (Some e, w)
           | Inr j \<Rightarrow>
               (None, w\<lparr>Body := Body w @
                  [JObject [(''result'', j),
                            (''tid'', case res_Id res of None \<Rightarrow> JNull | Some raw \<Rightarrow> raw),
                            (''type'', JString (res_Type res)),
                            (''action'', JString (res_Action res)),
                            (''method'', JString (res_Method res))]]\<rparr>))
      | ErrorResponse res \<Rightarrow>
          (None, w\<lparr>Body := Body w @
             [JObject [(''message'', JString (eres_Error res)),
                       (''tid'', case eres_Id res of None \<Rightarrow> JNull | Some raw \<Rightarrow> raw),
                       (''type'', JString (eres_Type res)),
                       (''action'', JString (eres_Action res)),
                       (''method'', JString (eres_Method res))]]\<rparr>))"

text \<open>
  One instance of \<open>marshal\<close>, for a handler whose reply type is \<^verbatim>\<open>float64\<close>: the integral
  values, the positive infinity and the NaN. \<^verbatim>\<open>encoding/json\<close> refuses the last two with an
  \<^verbatim>\<open>UnsupportedValueError\<close>, given here by its message.
\<close>

datatype float64 = Float int | PosInf | NaN

fun marshal_float64 :: "float64 \<Rightarrow> error + json" where
  "marshal_float64 (Float n) = Inr (JNumber n)"
| "marshal_float64 PosInf = Inl (errorString ''json: unsupported value: +Inf'')"
| "marshal_float64 NaN = Inl (errorString ''json: unsupported value: NaN'')"

subsection \<open>Sample requests\<close>

text \<open>
  The request \<^verbatim>\<open>{"action":"Calc","method":"Add","data":null,"tid":1,"type":"rpc"}\<close> as the
  decoder leaves it (a null \<^verbatim>\<open>data\<close> is a nil pointer), the same request sent as a notification
  (\<^verbatim>\<open>"tid":null\<close>), and a call of \<^verbatim>\<open>Echo.Say\<close> with \<^verbatim>\<open>"data":["hi"]\<close>.
\<close>

definition call_Add :: serverRequest where
  "call_Add = \<lparr>req_Method = ''Add'', req_Params = None, req_Id = Some (JNumber 1),
                req_Type = ''rpc'', req_Action = ''Calc''\<rparr>"

definition notify_Add :: serverRequest where
  "notify_Add = \<lparr>req_Method = ''Add'', req_Params = None, req_Id = None,
                  req_Type = ''rpc'', req_Action = ''Calc''\<rparr>"

definition call_Say :: serverRequest where
  "call_Say = \<lparr>req_Method = ''Say'', req_Params = Some (JArray [JString ''hi'']),
                req_Id = Some (JNumber 2), req_Type = ''rpc'', req_Action = ''Echo''\<rparr>"

text \<open>
  Two sessions with a decode error captured at construction, from bodies whose \<^verbatim>\<open>method\<close> is the
  number 5: the decoder reports the mismatch, skips that field and fills in the others.
  \<^verbatim>\<open>{"action":"Echo","method":5,"data":["hi"],"tid":2,"type":"rpc"}\<close> and
  \<^verbatim>\<open>{"action":"Calc","method":5,"data":null,"tid":1,"type":"rpc"}\<close>.
\<close>

definition bad_Say :: CodecRequest where
  "bad_Say = \<lparr>request = call_Say\<lparr>req_Method := []\<rparr>,
              err = Some (UnmarshalTypeError ''number'' ''string'' ''serverRequest'' ''method'')\<rparr>"

definition bad_Add :: CodecRequest where
  "bad_Add = \<lparr>request = call_Add\<lparr>req_Method := []\<rparr>,
              err = Some (UnmarshalTypeError ''number'' ''string'' ''serverRequest'' ''method'')\<rparr>"

definition blank :: "'b list ResponseWriter" where
  "blank = \<lparr>Header = Map.empty, Body = []\<rparr>"

section \<open>Properties\<close>

subsection \<open>Method\<close>

text \<open>
  Claim C6. \<open>Method\<close> returns the captured decode error together with the empty name when the
  session holds an error, and otherwise the request's action and method joined by a single
  \<^verbatim>\<open>.\<close> with a nil error.
\<close>

theorem Method_resolves:
  "(err c = Some e \<longrightarrow> Method c = ('''', Some e, c)) \<and>
   (err c = None \<longrightarrow>
      Method c = (req_Action (request c) @ ''.'' @ req_Method (request c), None, c))"
  by (simp add: Method_def)

theorem Method_resolves_witness:
  "Method \<lparr>request = call_Add, err = Some (errorString ''unexpected EOF'')\<rparr>
     = ('''', Some (errorString ''unexpected EOF''),
        \<lparr>request = call_Add, err = Some (errorString ''unexpected EOF'')\<rparr>) \<and>
   Method \<lparr>request = call_Add, err = None\<rparr>
     = (''Calc.Add'', None, \<lparr>request = call_Add, err = None\<rparr>)"
  using
    Method_resolves [of "\<lparr>request = call_Add, err = Some (errorString ''unexpected EOF'')\<rparr>"
      "errorString ''unexpected EOF''"]
    Method_resolves [of "\<lparr>request = call_Add, err = None\<rparr>" "errorString ''unexpected EOF''"]
  by (simp add: call_Add_def)

text \<open>
  Claim C8. \<open>Method\<close> is a projection without side effects: it leaves the session as it found
  it, so a second call right after the first returns the same name and the same error.
\<close>

theorem Method_pure:
  "Method c = (name, e, c') \<Longrightarrow> c' = c \<and> Method c' = (name, e, c')"
  by (auto simp: Method_def split: if_splits)

theorem Method_pure_witness:
  "Method \<lparr>request = notify_Add, err = None\<rparr>
     = (''Calc.Add'', None, \<lparr>request = notify_Add, err = None\<rparr>) \<and>
   Method (snd (snd (Method \<lparr>request = notify_Add, err = None\<rparr>)))
     = (''Calc.Add'', None, \<lparr>request = notify_Add, err = None\<rparr>)"
proof -
  have first: "Method \<lparr>request = notify_Add, err = None\<rparr>
     = (''Calc.Add'', None, \<lparr>request = notify_Add, err = None\<rparr>)"
    by (simp add: Method_def notify_Add_def)
  from Method_pure [OF first] first show ?thesis by simp
qed

subsection \<open>ReadRequest\<close>

text \<open>
  Whatever branch it takes, \<open>ReadRequest\<close> returns the error it leaves in the session.
\<close>

lemma ReadRequest_returns_err:
  "ReadRequest dec c args = (e, c', args') \<Longrightarrow> err c' = e"
  by (auto simp: ReadRequest_def Let_def split: if_splits option.splits prod.splits)

lemma ReadRequest_prior_error:
  "err c = Some e \<Longrightarrow> ReadRequest dec c args = (Some e, c, args)"
  by (simp add: ReadRequest_def)

text \<open>
  Claim C1, as stated: in every session whose \<^verbatim>\<open>data\<close> is not null the request is rejected
  with the \<^verbatim>\<open>missing params field\<close> error, and the payload is unmarshalled all the same. The
  second half undoes the first: the assignment of \<^verbatim>\<open>json.Unmarshal\<close>'s result to \<^verbatim>\<open>c.err\<close> follows
  the assignment of the \<^verbatim>\<open>missing params field\<close> error unconditionally, and \<^verbatim>\<open>c.err\<close> is what is
  returned. The call \<^verbatim>\<open>Echo.Say\<close> with \<^verbatim>\<open>"data":["hi"]\<close> is accepted: nil is returned, nil is left
  in the session, and the caller's string holds \<^verbatim>\<open>hi\<close>. And in a session that already holds
  an error the guard \<^verbatim>\<open>c.err == nil\<close> keeps the whole branch from running: the error held is
  returned and nothing is unmarshalled.
\<close>

theorem ReadRequest_data_present_accepted:
  "ReadRequest decode_string \<lparr>request = call_Say, err = None\<rparr> ''''
     = (None, \<lparr>request = call_Say, err = None\<rparr>, ''hi'') \<and>
   ReadRequest decode_string bad_Say ''''
     = (Some (UnmarshalTypeError ''number'' ''string'' ''serverRequest'' ''method''), bad_Say, '''')"
  by (simp add: ReadRequest_def call_Say_def bad_Say_def)

text \<open>
  Claim C1, amended. In every session without a captured error whose \<^verbatim>\<open>data\<close> is not null,
  \<open>ReadRequest\<close> unmarshals the payload into the one-element array around the caller's target,
  and what it returns and leaves in the session is the result of that unmarshal: nil when it
  succeeds, its error when it fails.
\<close>

theorem ReadRequest_data_present:
  assumes "err c = None" and "req_Params (request c) = Some p"
  shows "ReadRequest dec c args =
           (fst (json_Unmarshal dec p args),
            c\<lparr>err := fst (json_Unmarshal dec p args)\<rparr>,
            snd (json_Unmarshal dec p args))"
  using assms by (simp add: ReadRequest_def Let_def split: prod.splits)

theorem ReadRequest_data_present_witness:
  "ReadRequest decode_string
     \<lparr>request = call_Say\<lparr>req_Params := Some (JObject [(''text'', JString ''hi'')])\<rparr>,
      err = None\<rparr> ''old''
   = (Some (UnmarshalTypeError ''object'' ''[1]interface {}'' [] []),
      \<lparr>request = call_Say\<lparr>req_Params := Some (JObject [(''text'', JString ''hi'')])\<rparr>,
       err = Some (UnmarshalTypeError ''object'' ''[1]interface {}'' [] [])\<rparr>,
      ''old'')"
  using ReadRequest_data_present
    [of "\<lparr>request = call_Say\<lparr>req_Params := Some (JObject [(''text'', JString ''hi'')])\<rparr>,
          err = None\<rparr>"
        "JObject [(''text'', JString ''hi'')]" decode_string "''old''"]
  by simp

text \<open>
  Claim C5, as stated: in every session whose \<^verbatim>\<open>data\<close> is absent or null the canonical null
  payload is substituted and the target is bound to a representation of null, never left
  unset. The payload is substituted, but unmarshalling \<^verbatim>\<open>null\<close> into the array
  \<^verbatim>\<open>[1]interface{}{args}\<close> stores nothing: the target is left exactly as the caller handed it
  in. A string that held \<^verbatim>\<open>old\<close> holds \<^verbatim>\<open>old\<close> afterwards, one that held \<^verbatim>\<open>new\<close> holds \<^verbatim>\<open>new\<close>, so
  no value was bound to it. And in a session that already holds an error the guard
  \<^verbatim>\<open>c.err == nil\<close> keeps the branch from running: the error held is returned and the payload is
  not even substituted.
\<close>

theorem ReadRequest_null_data_target_unset:
  "ReadRequest decode_string \<lparr>request = call_Add, err = None\<rparr> ''old''
     = (None, \<lparr>request = call_Add\<lparr>req_Params := Some JNull\<rparr>, err = None\<rparr>, ''old'') \<and>
   ReadRequest decode_string \<lparr>request = call_Add, err = None\<rparr> ''new''
     = (None, \<lparr>request = call_Add\<lparr>req_Params := Some JNull\<rparr>, err = None\<rparr>, ''new'') \<and>
   ReadRequest decode_string bad_Add ''old''
     = (Some (UnmarshalTypeError ''number'' ''string'' ''serverRequest'' ''method''), bad_Add, ''old'') \<and>
   req_Params (request bad_Add) = None"
  by (simp add: ReadRequest_def call_Add_def bad_Add_def null_def)

text \<open>
  Claim C5, amended. In every session without a captured error whose \<^verbatim>\<open>data\<close> is absent or
  null, \<open>ReadRequest\<close> substitutes the canonical null payload for it, unmarshals that payload
  into the one-element array around the caller's target and returns nil; the unmarshal of
  \<^verbatim>\<open>null\<close> changes nothing, so the target keeps the content the caller supplied, whatever the
  type of the target.
\<close>

theorem ReadRequest_null_data:
  assumes "err c = None" and "req_Params (request c) = None"
  shows "ReadRequest dec c args =
           (None, c\<lparr>request := (request c)\<lparr>req_Params := Some null\<rparr>\<rparr>, args)"
  using assms by (simp add: ReadRequest_def null_def)

theorem ReadRequest_null_data_witness:
  "ReadRequest decode_string \<lparr>request = notify_Add, err = None\<rparr> ''''
     = (None, \<lparr>request = notify_Add\<lparr>req_Params := Some null\<rparr>, err = None\<rparr>, '''')"
  using ReadRequest_null_data [of "\<lparr>request = notify_Add, err = None\<rparr>" decode_string "''''"]
  by (simp add: notify_Add_def)

text \<open>
  Claim C9, as stated: in every session whose \<^verbatim>\<open>data\<close> is present and unmarshals successfully
  into the one-element array, \<open>ReadRequest\<close> returns nil and binds the target to the array's
  element. The guard \<^verbatim>\<open>c.err == nil\<close> stands before all of it: the session built from
  \<^verbatim>\<open>{"action":"Echo","method":5,"data":["hi"],"tid":2,"type":"rpc"}\<close> holds a decode error and
  the payload \<^verbatim>\<open>["hi"]\<close>, which unmarshals into a string without error; \<open>ReadRequest\<close> returns
  the decode error and the target keeps \<^verbatim>\<open>old\<close>. And without a captured error a payload can
  unmarshal successfully and bind nothing: \<^verbatim>\<open>[]\<close> has no element, and the element of \<^verbatim>\<open>[null]\<close>
  stores nothing in a string; in both cases nil is returned and the target keeps \<^verbatim>\<open>old\<close>.
\<close>

theorem ReadRequest_prior_error_kept:
  "req_Params (request bad_Say) = Some (JArray [JString ''hi'']) \<and>
   json_Unmarshal decode_string (JArray [JString ''hi'']) ''old'' = (None, ''hi'') \<and>
   ReadRequest decode_string bad_Say ''old''
     = (Some (UnmarshalTypeError ''number'' ''string'' ''serverRequest'' ''method''), bad_Say, ''old'') \<and>
   ReadRequest decode_string
       \<lparr>request = call_Say\<lparr>req_Params := Some (JArray [])\<rparr>, err = None\<rparr> ''old''
     = (None, \<lparr>request = call_Say\<lparr>req_Params := Some (JArray [])\<rparr>, err = None\<rparr>, ''old'') \<and>
   ReadRequest decode_string
       \<lparr>request = call_Say\<lparr>req_Params := Some (JArray [JNull])\<rparr>, err = None\<rparr> ''old''
     = (None, \<lparr>request = call_Say\<lparr>req_Params := Some (JArray [JNull])\<rparr>, err = None\<rparr>, ''old'')"
  by (simp add: ReadRequest_def bad_Say_def call_Say_def)

text \<open>
  Which payloads unmarshal successfully into the one-element array: \<^verbatim>\<open>null\<close>, the empty array,
  and an array whose first element decodes into the target without error.
\<close>

lemma json_Unmarshal_succeeds:
  "fst (json_Unmarshal dec p args) = None \<longleftrightarrow>
     p = JNull \<or> p = JArray [] \<or> (\<exists>v vs. p = JArray (v # vs) \<and> fst (dec v args) = None)"
proof (cases p)
  case (JArray xs)
  then show ?thesis by (cases xs) simp_all
qed simp_all

text \<open>
  Claim C9, amended. In every session without a captured error whose \<^verbatim>\<open>data\<close> is present and
  unmarshals successfully into the one-element array, \<open>ReadRequest\<close> returns nil and leaves nil
  in the session: the \<^verbatim>\<open>missing params field\<close> error of that branch is overwritten and nowhere
  to be seen. A payload with a first element, \<^verbatim>\<open>[v, ...]\<close>, leaves in the target what decoding
  \<^verbatim>\<open>v\<close> into the target leaves there (which for a \<^verbatim>\<open>v\<close> that stores nothing, such as null into a
  string, is the content the caller supplied). Every other payload that unmarshals
  successfully is the empty array or \<^verbatim>\<open>null\<close> and leaves the target as the caller supplied it.
\<close>

theorem ReadRequest_data_unmarshalled:
  assumes "err c = None" and "req_Params (request c) = Some p"
    and "fst (json_Unmarshal dec p args) = None"
  shows "(\<forall>v vs. p = JArray (v # vs) \<longrightarrow>
            fst (dec v args) = None \<and>
            ReadRequest dec c args = (None, c, snd (dec v args))) \<and>
         ((\<forall>v vs. p \<noteq> JArray (v # vs)) \<longrightarrow>
            (p = JArray [] \<or> p = JNull) \<and> ReadRequest dec c args = (None, c, args))"
proof -
  have same: "c\<lparr>err := None\<rparr> = c"
    using assms(1) by (cases c) simp
  obtain args' where res: "json_Unmarshal dec p args = (None, args')"
    using assms(3) by (cases "json_Unmarshal dec p args") simp
  have read: "ReadRequest dec c args = (None, c, snd (json_Unmarshal dec p args))"
    using assms(1,2) same res by (simp add: ReadRequest_def)
  have shape: "p = JNull \<or> p = JArray [] \<or> (\<exists>v vs. p = JArray (v # vs) \<and> fst (dec v args) = None)"
    using assms(3) by (simp only: json_Unmarshal_succeeds)
  show ?thesis
  proof (intro conjI allI impI)
    fix v vs
    assume p: "p = JArray (v # vs)"
    with assms(3) show "fst (dec v args) = None" by simp
    from p read show "ReadRequest dec c args = (None, c, snd (dec v args))" by simp
  next
    assume none: "\<forall>v vs. p \<noteq> JArray (v # vs)"
    with shape show "p = JArray [] \<or> p = JNull" by blast
    then show "ReadRequest dec c args = (None, c, args)"
      using read by auto
  qed
qed

theorem ReadRequest_data_unmarshalled_witness:
  "decode_string (JString ''hi'') ''old'' = (None, ''hi'') \<and>
   ReadRequest decode_string \<lparr>request = call_Say, err = None\<rparr> ''old''
     = (None, \<lparr>request = call_Say, err = None\<rparr>, ''hi'') \<and>
   ReadRequest decode_string
       \<lparr>request = call_Say\<lparr>req_Params := Some (JArray [])\<rparr>, err = None\<rparr> ''old''
     = (None, \<lparr>request = call_Say\<lparr>req_Params := Some (JArray [])\<rparr>, err = None\<rparr>, ''old'')"
  using
    ReadRequest_data_unmarshalled
      [of "\<lparr>request = call_Say, err = None\<rparr>" "JArray [JString ''hi'']" decode_string "''old''"]
    ReadRequest_data_unmarshalled
      [of "\<lparr>request = call_Say\<lparr>req_Params := Some (JArray [])\<rparr>, err = None\<rparr>" "JArray []"
          decode_string "''old''"]
  by (simp add: call_Say_def)

subsection \<open>WriteResponse\<close>

text \<open>
  Claim C7. When the session holds an error, \<open>WriteResponse\<close> returns that error and leaves
  the response writer as it was: no header, no body, no error body. That is so whether the
  error was given directly, captured by \<open>newCodecRequest\<close> from the decoder, or captured and
  returned by \<open>ReadRequest\<close>; the encoder and the dispatch error play no part.
\<close>

theorem WriteResponse_captured_error:
  "(err c = Some e \<longrightarrow> WriteResponse Encode c w reply methodErr = (Some e, c, w)) \<and>
   (fst (Decode body) = Some e \<longrightarrow>
      WriteResponse Encode (newCodecRequest Decode body) w reply methodErr
        = (Some e, newCodecRequest Decode body, w)) \<and>
   (ReadRequest dec c0 args = (Some e, c1, args') \<longrightarrow>
      WriteResponse Encode c1 w reply methodErr = (Some e, c1, w))"
proof (intro conjI impI)
  assume "err c = Some e"
  then show "WriteResponse Encode c w reply methodErr = (Some e, c, w)"
    by (simp add: WriteResponse_def)
next
  assume "fst (Decode body) = Some e"
  then have "err (newCodecRequest Decode body) = Some e"
    by (cases "Decode body") (simp add: newCodecRequest_def)
  then show "WriteResponse Encode (newCodecRequest Decode body) w reply methodErr
               = (Some e, newCodecRequest Decode body, w)"
    by (simp add: WriteResponse_def)
next
  assume "ReadRequest dec c0 args = (Some e, c1, args')"
  then have "err c1 = Some e"
    by (rule ReadRequest_returns_err)
  then show "WriteResponse Encode c1 w reply methodErr = (Some e, c1, w)"
    by (simp add: WriteResponse_def)
qed

theorem WriteResponse_captured_error_witness:
  "WriteResponse Encode_record
     \<lparr>request = call_Add, err = Some (UnmarshalTypeError ''object'' ''[1]interface {}'' [] [])\<rparr>
     blank (3::int) (Some (errorString ''overflow''))
   = (Some (UnmarshalTypeError ''object'' ''[1]interface {}'' [] []),
      \<lparr>request = call_Add, err = Some (UnmarshalTypeError ''object'' ''[1]interface {}'' [] [])\<rparr>,
      blank) \<and>
   WriteResponse Encode_record
     (newCodecRequest
        (\<lambda>b. (Some (UnmarshalTypeError ''object'' ''[1]interface {}'' [] []), notify_Add)) ''[{}]'')
     blank (3::int) (Some (errorString ''overflow''))
   = (Some (UnmarshalTypeError ''object'' ''[1]interface {}'' [] []),
      \<lparr>request = notify_Add, err = Some (UnmarshalTypeError ''object'' ''[1]interface {}'' [] [])\<rparr>,
      blank) \<and>
   WriteResponse Encode_record
     (fst (snd (ReadRequest decode_string
        \<lparr>request = call_Say\<lparr>req_Params := Some (JObject [])\<rparr>, err = None\<rparr> ''old'')))
     blank (3::int) (Some (errorString ''overflow''))
   = (Some (UnmarshalTypeError ''object'' ''[1]interface {}'' [] []),
      \<lparr>request = call_Say\<lparr>req_Params := Some (JObject [])\<rparr>,
       err = Some (UnmarshalTypeError ''object'' ''[1]interface {}'' [] [])\<rparr>,
      blank)"
proof -
  have read: "ReadRequest decode_string
        \<lparr>request = call_Say\<lparr>req_Params := Some (JObject [])\<rparr>, err = None\<rparr> ''old''
      = (Some (UnmarshalTypeError ''object'' ''[1]interface {}'' [] []),
         \<lparr>request = call_Say\<lparr>req_Params := Some (JObject [])\<rparr>,
          err = Some (UnmarshalTypeError ''object'' ''[1]interface {}'' [] [])\<rparr>, ''old'')"
    by (simp add: ReadRequest_def)
  have new: "newCodecRequest
        (\<lambda>b. (Some (UnmarshalTypeError ''object'' ''[1]interface {}'' [] []), notify_Add)) ''[{}]''
      = \<lparr>request = notify_Add, err = Some (UnmarshalTypeError ''object'' ''[1]interface {}'' [] [])\<rparr>"
    by (simp add: newCodecRequest_def)
  from WriteResponse_captured_error
    [of "\<lparr>request = call_Add, err = Some (UnmarshalTypeError ''object'' ''[1]interface {}'' [] [])\<rparr>"
        "UnmarshalTypeError ''object'' ''[1]interface {}'' [] []"
        Encode_record blank "3::int" "Some (errorString ''overflow'')"
        "\<lambda>b. (Some (UnmarshalTypeError ''object'' ''[1]interface {}'' [] []), notify_Add)" "''[{}]''"
        decode_string "\<lparr>request = call_Say\<lparr>req_Params := Some (JObject [])\<rparr>, err = None\<rparr>"
        "''old''"
        "\<lparr>request = call_Say\<lparr>req_Params := Some (JObject [])\<rparr>,
          err = Some (UnmarshalTypeError ''object'' ''[1]interface {}'' [] [])\<rparr>" "''old''"]
  show ?thesis by (simp add: read new)
qed

text \<open>
  Claim C2. Without a captured error and with a dispatch error, \<open>WriteResponse\<close> sets the
  header \<^verbatim>\<open>Content-Type\<close> to \<^verbatim>\<open>application/json; charset=utf-8\<close> and then calls the encoder exactly
  once, on an error body whose type is \<^verbatim>\<open>exception\<close> whatever the request's type, whose action
  and method are the request's, whose message is the error's text and whose \<^verbatim>\<open>tid\<close> is the
  request's, null included: a null \<^verbatim>\<open>tid\<close> does not suppress the error body.
\<close>

theorem WriteResponse_dispatch_error:
  assumes "err c = None"
  shows "WriteResponse Encode c w reply (Some me) =
           (None, c,
            snd (Encode
                   (ErrorResponse \<lparr>eres_Error = Error me,
                                   eres_Id = req_Id (request c),
                                   eres_Type = ''exception'',
                                   eres_Action = req_Action (request c),
                                   eres_Method = req_Method (request c)\<rparr>)
                   (w\<lparr>Header := (Header w)(''Content-Type'' \<mapsto>
                                   [''application/json; charset=utf-8''])\<rparr>)))"
  using assms by (simp add: WriteResponse_def Header_Set_def Let_def split: prod.splits)

theorem WriteResponse_dispatch_error_witness:
  "WriteResponse Encode_record \<lparr>request = notify_Add, err = None\<rparr> blank (0::int)
     (Some (errorString ''overflow''))
   = (None, \<lparr>request = notify_Add, err = None\<rparr>,
      \<lparr>Header = [''Content-Type'' \<mapsto> [''application/json; charset=utf-8'']],
       Body = [ErrorResponse \<lparr>eres_Error = ''overflow'', eres_Id = None,
                               eres_Type = ''exception'', eres_Action = ''Calc'',
                               eres_Method = ''Add''\<rparr>]\<rparr>)"
  using WriteResponse_dispatch_error
    [of "\<lparr>request = notify_Add, err = None\<rparr>" Encode_record blank "0::int"
        "errorString ''overflow''"]
  by (simp add: Encode_record_def blank_def notify_Add_def)

text \<open>
  Claim C3. Without a captured error, with a null \<^verbatim>\<open>tid\<close> and without a dispatch error (a
  notification that succeeded), \<open>WriteResponse\<close> returns nil and leaves the response writer as
  it was: the encoder is not called and no header is set.
\<close>

theorem WriteResponse_notification:
  assumes "err c = None" and "req_Id (request c) = None"
  shows "WriteResponse Encode c w reply None = (None, c, w)"
  using assms by (simp add: WriteResponse_def)

theorem WriteResponse_notification_witness:
  "WriteResponse (Encode_fail (errorString ''broken pipe''))
     \<lparr>request = notify_Add, err = None\<rparr> blank (3::int) None
   = (None, \<lparr>request = notify_Add, err = None\<rparr>, blank)"
  using WriteResponse_notification
    [of "\<lparr>request = notify_Add, err = None\<rparr>" "Encode_fail (errorString ''broken pipe'')"
        blank "3::int"]
  by (simp add: notify_Add_def)

text \<open>
  Claim C4, as stated: without a captured error, with a \<^verbatim>\<open>tid\<close> that is not null and without a
  dispatch error, exactly one success body with the handler's result embedded is written.
  The encoder marshals before it writes, and the source drops its error: when the reply of
  \<^verbatim>\<open>Calc.Add\<close> is the \<^verbatim>\<open>float64\<close> infinity, which does not marshal, the header is set, no body
  is written and nil is returned.
\<close>

theorem WriteResponse_success_not_written:
  "WriteResponse (Encode_json marshal_float64) \<lparr>request = call_Add, err = None\<rparr> blank PosInf None
   = (None, \<lparr>request = call_Add, err = None\<rparr>,
      \<lparr>Header = [''Content-Type'' \<mapsto> [''application/json; charset=utf-8'']], Body = []\<rparr>)"
  by (simp add: WriteResponse_def Header_Set_def Encode_json_def blank_def call_Add_def)

text \<open>
  Claim C4, amended. Without a captured error, with a \<^verbatim>\<open>tid\<close> that is not null and without a
  dispatch error, \<open>WriteResponse\<close> sets the header \<^verbatim>\<open>Content-Type\<close> to
  \<^verbatim>\<open>application/json; charset=utf-8\<close>, then calls the encoder exactly once, on a success body
  that carries the \<^verbatim>\<open>tid\<close> of the request itself, the request's action, type and method, and
  the handler's reply as result, and returns nil. With the standard encoder on a writer that
  accepts the write: when the reply marshals, exactly one JSON body is written, the object
  of \<^verbatim>\<open>result\<close> (the marshalled reply), \<^verbatim>\<open>tid\<close> (the same JSON value as the request's), \<^verbatim>\<open>type\<close>,
  \<^verbatim>\<open>action\<close> and \<^verbatim>\<open>method\<close>; when the reply does not marshal, no body is written.
\<close>

theorem WriteResponse_success:
  assumes "err c = None" and "req_Id (request c) = Some tid"
  shows "WriteResponse Encode c w reply None =
           (None, c,
            snd (Encode
                   (Response \<lparr>res_Result = reply,
                              res_Id = Some tid,
                              res_Type = req_Type (request c),
                              res_Action = req_Action (request c),
                              res_Method = req_Method (request c)\<rparr>)
                   (w\<lparr>Header := (Header w)(''Content-Type'' \<mapsto>
                                   [''application/json; charset=utf-8''])\<rparr>))) \<and>
         (\<forall>j. marshal reply = Inr j \<longrightarrow>
            WriteResponse (Encode_json marshal) c wj reply None =
              (None, c,
               wj\<lparr>Header := (Header wj)(''Content-Type'' \<mapsto>
                                [''application/json; charset=utf-8'']),
                  Body := Body wj @
                    [JObject [(''result'', j),
                              (''tid'', tid),
                              (''type'', JString (req_Type (request c))),
                              (''action'', JString (req_Action (request c))),
                              (''method'', JString (req_Method (request c)))]]\<rparr>)) \<and>
         (\<forall>e. marshal reply = Inl e \<longrightarrow>
            WriteResponse (Encode_json marshal) c wj reply None =
              (None, c,
               wj\<lparr>Header := (Header wj)(''Content-Type'' \<mapsto>
                                [''application/json; charset=utf-8''])\<rparr>))"
proof (intro conjI allI impI)
  show "WriteResponse Encode c w reply None =
           (None, c,
            snd (Encode
                   (Response \<lparr>res_Result = reply,
                              res_Id = Some tid,
                              res_Type = req_Type (request c),
                              res_Action = req_Action (request c),
                              res_Method = req_Method (request c)\<rparr>)
                   (w\<lparr>Header := (Header w)(''Content-Type'' \<mapsto>
                                   [''application/json; charset=utf-8''])\<rparr>)))"
    using assms by (simp add: WriteResponse_def Header_Set_def Let_def split: prod.splits)
next
  fix j
  assume "marshal reply = Inr j"
  then show "WriteResponse (Encode_json marshal) c wj reply None =
              (None, c,
               wj\<lparr>Header := (Header wj)(''Content-Type'' \<mapsto>
                                [''application/json; charset=utf-8'']),
                  Body := Body wj @
                    [JObject [(''result'', j),
                              (''tid'', tid),
                              (''type'', JString (req_Type (request c))),
                              (''action'', JString (req_Action (request c))),
                              (''method'', JString (req_Method (request c)))]]\<rparr>)"
    using assms by (simp add: WriteResponse_def Header_Set_def Encode_json_def)
next
  fix e
  assume "marshal reply = Inl e"
  then show "WriteResponse (Encode_json marshal) c wj reply None =
              (None, c,
               wj\<lparr>Header := (Header wj)(''Content-Type'' \<mapsto>
                                [''application/json; charset=utf-8''])\<rparr>)"
    using assms by (simp add: WriteResponse_def Header_Set_def Encode_json_def)
qed

theorem WriteResponse_success_witness:
  "WriteResponse Encode_record \<lparr>request = call_Add, err = None\<rparr> blank (Float 3) None
   = (None, \<lparr>request = call_Add, err = None\<rparr>,
      \<lparr>Header = [''Content-Type'' \<mapsto> [''application/json; charset=utf-8'']],
       Body = [Response \<lparr>res_Result = Float 3, res_Id = Some (JNumber 1), res_Type = ''rpc'',
                          res_Action = ''Calc'', res_Method = ''Add''\<rparr>]\<rparr>) \<and>
   WriteResponse (Encode_json marshal_float64) \<lparr>request = call_Add, err = None\<rparr> blank
     (Float 3) None
   = (None, \<lparr>request = call_Add, err = None\<rparr>,
      \<lparr>Header = [''Content-Type'' \<mapsto> [''application/json; charset=utf-8'']],
       Body = [JObject [(''result'', JNumber 3), (''tid'', JNumber 1),
                        (''type'', JString ''rpc''), (''action'', JString ''Calc''),
                        (''method'', JString ''Add'')]]\<rparr>) \<and>
   WriteResponse (Encode_json marshal_float64) \<lparr>request = call_Add, err = None\<rparr> blank NaN None
   = (None, \<lparr>request = call_Add, err = None\<rparr>,
      \<lparr>Header = [''Content-Type'' \<mapsto> [''application/json; charset=utf-8'']], Body = []\<rparr>)"
  using
    WriteResponse_success
      [of "\<lparr>request = call_Add, err = None\<rparr>" "JNumber 1" Encode_record blank "Float 3"
          marshal_float64 blank]
    WriteResponse_success
      [of "\<lparr>request = call_Add, err = None\<rparr>" "JNumber 1" Encode_record blank NaN
          marshal_float64 blank]
  by (simp add: Encode_record_def blank_def call_Add_def)

text \<open>
  Claim C10. Without a captured error \<open>WriteResponse\<close> returns nil in every case: with or
  without a dispatch error, and whatever the encoder does or returns, a failure to marshal or
  to write included, since its result is dropped at both calls.
\<close>

theorem WriteResponse_returns_nil:
  assumes "err c = None"
  shows "fst (WriteResponse Encode c w reply methodErr) = None"
  using assms
  by (simp add: WriteResponse_def Let_def split: option.splits prod.splits)

theorem WriteResponse_returns_nil_witness:
  "fst (WriteResponse (Encode_fail (errorString ''broken pipe''))
          \<lparr>request = call_Add, err = None\<rparr> blank (3::int)
          (Some (errorString ''overflow''))) = None \<and>
   fst (WriteResponse (Encode_fail (errorString ''broken pipe''))
          \<lparr>request = call_Add, err = None\<rparr> blank (3::int) None) = None"
  using
    WriteResponse_returns_nil
      [of "\<lparr>request = call_Add, err = None\<rparr>" "Encode_fail (errorString ''broken pipe'')"
          blank "3::int" "Some (errorString ''overflow'')"]
    WriteResponse_returns_nil
      [of "\<lparr>request = call_Add, err = None\<rparr>" "Encode_fail (errorString ''broken pipe'')"
          blank "3::int" None]
  by simp

end
